theory Spec2Isabelle
  imports Complex_Main
begin

section \<open>Order and credit-ledger operations of the supplement back office\<close>

text \<open>
  The development embeds the tRPC procedures of \<^verbatim>\<open>server/routers/orders.ts\<close>
  and \<^verbatim>\<open>organizations.addCredits\<close> of \<^verbatim>\<open>server/routers/organizations.ts\<close> as
  functions on an explicit copy of the document store.

  Conventions of the embedding:
  \<^item> a JavaScript \<^verbatim>\<open>number\<close> that holds money is a \<open>rat\<close>, and \<open>+\<close>, \<open>-\<close> and \<open><\<close> on
    it stand for the operations of the code, which round to a double. The laws of exact
    arithmetic (associativity, cancellation) do not carry over to the code, so every
    statement below keeps to the code's own expression, in the code's order, and every
    concrete run to whole numbers, which doubles hold exactly. Quantities and stock
    counters, which the schemas declare \<^verbatim>\<open>int()\<close>, are \<open>int\<close>;
  \<^item> \<^verbatim>\<open>new Date()\<close> is the parameter \<open>now\<close> of every operation;
  \<^item> a collection keyed by \<^verbatim>\<open>_id\<close> is a map from the 24-digit hexadecimal form of the key
    to the document; collections that are only appended to are lists, oldest entry first;
  \<^item> a thrown \<^verbatim>\<open>Error\<close> is a value of type \<open>error\<close>; every operation returns its outcome
    together with the store as it is at that moment, so writes made before a throw remain;
  \<^item> a template string is kept as a constructor with its arguments.
\<close>

subsection \<open>Data model\<close>

type_synonym timestamp = nat

datatype orderStatus = Pending | Processing | SentToLogistic | Delivered | Cancelled

datatype channel = Line | Shopee | Lazada | Other

datatype orderSource = Admin | Client

datatype creditTransactionType = Add | Deduct | Adjust | Refund

datatype productAction = Create | Update | AddStock | ReduceStock | Delete

datatype error =
    BSONError
  | OrderNotFound
  | OrganizationNotFound
  | ProductNotFound
  | ProductNotActive
  | ProductNotAvailable
  | InsufficientStock int int
  | InsufficientCredits rat rat

datatype description =
    Text string
  | ShippingCostForOrder string int

datatype activity =
    CreateOrder
  | SubmitClientOrder
  | UpdateOrderStatusTo orderStatus

datatype logNotes =
    StockReducedByOrderFor string
  | StockRestoredFromCancelledOrderFor string

record product =
  p_organizationId :: string
  p_productCode :: string
  p_productName :: string
  p_price :: rat
  stockQuantity :: int
  isActive :: bool
  p_updatedAt :: timestamp

record organization =
  g_name :: string
  credits :: rat
  g_updatedAt :: timestamp

record user =
  u_name :: string

record order =
  o_organizationId :: string
  o_productId :: "string option"
  o_productCode :: "string option"
  o_productName :: string
  o_price :: rat
  quantity :: int
  o_channel :: channel
  customerName :: string
  customerContact :: string
  shippingAddress :: string
  status :: orderStatus
  createdBy :: string
  orderSource :: orderSource
  orderDate :: "string option"
  pickPackCost :: "rat option"
  bubbleCost :: "rat option"
  paperInsideCost :: "rat option"
  cancelOrderCost :: "rat option"
  codCost :: "rat option"
  boxCost :: "rat option"
  deliveryFeeCost :: "rat option"
  totalShippingCost :: "rat option"
  o_createdAt :: timestamp
  o_updatedAt :: timestamp

record creditTransaction =
  t_organizationId :: string
  t_organizationName :: string
  t_type :: creditTransactionType
  amount :: rat
  balanceBefore :: rat
  balanceAfter :: rat
  t_description :: description
  t_orderId :: "string option"
  t_performedBy :: "string option"
  t_performedByName :: "string option"
  t_createdAt :: timestamp

record productLog =
  l_productId :: string
  l_productCode :: string
  l_productName :: string
  l_action :: productAction
  l_quantityChange :: "int option"
  l_previousStock :: "int option"
  l_newStock :: "int option"
  l_userId :: string
  l_userName :: string
  l_organizationId :: string
  l_refId :: string
  l_notes :: logNotes
  l_createdAt :: timestamp

record userLog =
  a_userId :: string
  a_userName :: string
  a_activity :: activity
  a_refId :: string
  a_organizationId :: string
  a_createdAt :: timestamp

record db =
  products :: "string \<rightharpoonup> product"
  organizations :: "string \<rightharpoonup> organization"
  orders :: "string \<rightharpoonup> order"
  users :: "string \<rightharpoonup> user"
  credit_transactions :: "creditTransaction list"
  product_logs :: "productLog list"
  user_logs :: "userLog list"

subsection \<open>The document store driver\<close>

text \<open>
  \<^verbatim>\<open>new ObjectId(s)\<close> on a string: a string of 24 hexadecimal digits is a key, and two
  keys are equal when their digits are, whatever the case of the letters; on a string that
  is no key the constructor throws (a \<^verbatim>\<open>BSONError\<close>). Some versions of the driver also
  take a string of exactly 12 characters as a key. The embedding does not: the runs below
  use strings of 24 digits and the 6-character string \<^verbatim>\<open>client\<close>, and the general
  statements assume the lookups they name to succeed.
\<close>

definition isHexDigit :: "char \<Rightarrow> bool" where
  "isHexDigit c = (c \<in> set ''0123456789abcdefABCDEF'')"

definition toLowerHex :: "char \<Rightarrow> char" where
  "toLowerHex c =
     (if c = CHR ''A'' then CHR ''a''
      else if c = CHR ''B'' then CHR ''b''
      else if c = CHR ''C'' then CHR ''c''
      else if c = CHR ''D'' then CHR ''d''
      else if c = CHR ''E'' then CHR ''e''
      else if c = CHR ''F'' then CHR ''f''
      else c)"

definition ObjectId :: "string \<Rightarrow> error + string" where
  "ObjectId s =
     (if length s = 24 \<and> list_all isHexDigit s then Inr (map toLowerHex s)
      else Inl BSONError)"

text \<open>
  \<^verbatim>\<open>collection.findOne({ _id: new ObjectId(s) })\<close>: the document, paired with its
  \<^verbatim>\<open>_id\<close>, or \<^verbatim>\<open>null\<close>.
\<close>

definition findOneById :: "(string \<rightharpoonup> 'a) \<Rightarrow> string \<Rightarrow> error + (string \<times> 'a) option" where
  "findOneById coll s =
     (case ObjectId s of
        Inl e \<Rightarrow> Inl e
      | Inr k \<Rightarrow> Inr (case coll k of None \<Rightarrow> None | Some doc \<Rightarrow> Some (k, doc)))"

text \<open>
  \<^verbatim>\<open>collection.updateOne({ _id: k }, update)\<close>: the update applied to the matching document;
  nothing happens when no document matches.
\<close>

definition updateOne :: "(string \<rightharpoonup> 'a) \<Rightarrow> string \<Rightarrow> ('a \<Rightarrow> 'a) \<Rightarrow> (string \<rightharpoonup> 'a)" where
  "updateOne coll k f = (case coll k of None \<Rightarrow> coll | Some d \<Rightarrow> coll(k \<mapsto> f d))"

text \<open>\<^verbatim>\<open>x ?? 0\<close> on an optional number.\<close>

definition orZero :: "rat option \<Rightarrow> rat" where
  "orZero x = (case x of None \<Rightarrow> 0 | Some v \<Rightarrow> v)"

text \<open>\<^verbatim>\<open>s ? a : b\<close> and \<^verbatim>\<open>if (s)\<close> on a string: the empty string is falsy.\<close>

definition truthy :: "string \<Rightarrow> bool" where
  "truthy s = (s \<noteq> [])"

subsection \<open>\<^verbatim>\<open>orders.updateShippingCost\<close>\<close>

record shippingCostInput =
  sc_id :: string
  sc_organizationId :: string
  i_pickPackCost :: "rat option"
  i_bubbleCost :: "rat option"
  i_paperInsideCost :: "rat option"
  i_cancelOrderCost :: "rat option"
  i_codCost :: "rat option"
  i_boxCost :: "rat option"
  i_deliveryFeeCost :: "rat option"

record shippingCostResult =
  success :: bool
  r_totalShippingCost :: rat
  newBalance :: rat

text \<open>The sum of the seven fields of the request, an omitted field counting as 0.\<close>

definition inputTotal :: "shippingCostInput \<Rightarrow> rat" where
  "inputTotal inp =
     orZero (i_pickPackCost inp) +
     orZero (i_bubbleCost inp) +
     orZero (i_paperInsideCost inp) +
     orZero (i_cancelOrderCost inp) +
     orZero (i_codCost inp) +
     orZero (i_boxCost inp) +
     orZero (i_deliveryFeeCost inp)"

text \<open>
  \<^verbatim>\<open>org.credits || 0\<close> is \<open>credits org\<close> (the only falsy number of the model is 0), and
  \<^verbatim>\<open>order.quantity || 1\<close> is used for the description only.
\<close>

definition updateShippingCost ::
  "db \<Rightarrow> timestamp \<Rightarrow> shippingCostInput \<Rightarrow> (error + shippingCostResult) \<times> db" where
  "updateShippingCost d now inp =
     (case findOneById (orders d) (sc_id inp) of
        Inl e \<Rightarrow> (Inl e, d)
      | Inr None \<Rightarrow> (Inl OrderNotFound, d)
      | Inr (Some (orderKey, ord)) \<Rightarrow>
     (case findOneById (organizations d) (sc_organizationId inp) of
        Inl e \<Rightarrow> (Inl e, d)
      | Inr None \<Rightarrow> (Inl OrganizationNotFound, d)
      | Inr (Some (orgKey, org)) \<Rightarrow>
        let qty = (if quantity ord = 0 then 1 else quantity ord);
            pickPack = orZero (i_pickPackCost inp);
            bubble = orZero (i_bubbleCost inp);
            paperInside = orZero (i_paperInsideCost inp);
            cancelOrder = orZero (i_cancelOrderCost inp);
            cod = orZero (i_codCost inp);
            box = orZero (i_boxCost inp);
            deliveryFee = orZero (i_deliveryFeeCost inp);
            total = pickPack + bubble + paperInside + cancelOrder + cod + box + deliveryFee;
            currentCredits = credits org
        in
        if currentCredits < total then (Inl (InsufficientCredits total currentCredits), d)
        else
          let balance = currentCredits - total;
              d1 = d\<lparr>organizations :=
                     updateOne (organizations d) orgKey
                       (\<lambda>doc. doc\<lparr>credits := balance, g_updatedAt := now\<rparr>)\<rparr>;
              d2 = d1\<lparr>credit_transactions := credit_transactions d1 @
                     [\<lparr>t_organizationId = sc_organizationId inp,
                       t_organizationName = g_name org,
                       t_type = Deduct,
                       amount = total,
                       balanceBefore = currentCredits,
                       balanceAfter = balance,
                       t_description = ShippingCostForOrder (o_productName ord) qty,
                       t_orderId = Some (sc_id inp),
                       t_performedBy = None,
                       t_performedByName = None,
                       t_createdAt = now\<rparr>]\<rparr>;
              d3 = d2\<lparr>orders :=
                     updateOne (orders d2) orderKey
                       (\<lambda>doc. doc\<lparr>pickPackCost := Some pickPack,
                               bubbleCost := Some bubble,
                               paperInsideCost := Some paperInside,
                               cancelOrderCost := Some cancelOrder,
                               codCost := Some cod,
                               boxCost := Some box,
                               deliveryFeeCost := Some deliveryFee,
                               totalShippingCost := Some total,
                               o_updatedAt := now\<rparr>)\<rparr>
          in (Inr \<lparr>success = True, r_totalShippingCost = total, newBalance = balance\<rparr>, d3)))"

subsection \<open>Activity logs\<close>

text \<open>
  \<^verbatim>\<open>logActivity\<close> and \<^verbatim>\<open>logProductActivity\<close> append one entry. The \<^verbatim>\<open>date\<close> and
  \<^verbatim>\<open>time\<close> strings of an entry are renderings of \<open>now\<close> and are not kept apart from it.
  \<^verbatim>\<open>quantityChange || null\<close> turns a change of 0 into \<^verbatim>\<open>null\<close>.
\<close>

definition logActivity ::
  "db \<Rightarrow> timestamp \<Rightarrow> string \<Rightarrow> string \<Rightarrow> activity \<Rightarrow> string \<Rightarrow> string \<Rightarrow> db" where
  "logActivity d now userId userName act refId organizationId =
     d\<lparr>user_logs := user_logs d @
         [\<lparr>a_userId = userId,
           a_userName = userName,
           a_activity = act,
           a_refId = refId,
           a_organizationId = organizationId,
           a_createdAt = now\<rparr>]\<rparr>"

definition logProductActivity ::
  "db \<Rightarrow> timestamp \<Rightarrow> string \<Rightarrow> string \<Rightarrow> string \<Rightarrow> productAction \<Rightarrow> int \<Rightarrow> int \<Rightarrow> int \<Rightarrow>
   string \<Rightarrow> string \<Rightarrow> string \<Rightarrow> string \<Rightarrow> logNotes \<Rightarrow> db" where
  "logProductActivity d now productId productCode productName action previousStock newStock
       quantityChange userId userName organizationId refId notes =
     d\<lparr>product_logs := product_logs d @
         [\<lparr>l_productId = productId,
           l_productCode = productCode,
           l_productName = productName,
           l_action = action,
           l_quantityChange = (if quantityChange = 0 then None else Some quantityChange),
           l_previousStock = Some previousStock,
           l_newStock = Some newStock,
           l_userId = userId,
           l_userName = userName,
           l_organizationId = organizationId,
           l_refId = refId,
           l_notes = notes,
           l_createdAt = now\<rparr>]\<rparr>"

text \<open>
  \<^verbatim>\<open>createdBy ? await users.findOne({ _id: new ObjectId(createdBy) }) : null\<close>: the
  constructor runs, and may throw, whenever the string is not empty.
\<close>

definition findCreator :: "db \<Rightarrow> string \<Rightarrow> error + (string \<times> user) option" where
  "findCreator d creator = (if truthy creator then findOneById (users d) creator else Inr None)"

text \<open>\<^verbatim>\<open>user?.name || "System"\<close>.\<close>

definition userNameOrSystem :: "(string \<times> user) option \<Rightarrow> string" where
  "userNameOrSystem usr =
     (case usr of
        None \<Rightarrow> ''System''
      | Some (_, u) \<Rightarrow> (if truthy (u_name u) then u_name u else ''System''))"

subsection \<open>\<^verbatim>\<open>orders.updateStatus\<close>\<close>

record statusInput =
  us_id :: string
  us_status :: orderStatus

text \<open>
  The first half of the cancellation block: when the order names a product and the product
  is still in the store, its stock is incremented by the order's quantity, the creator is
  looked up and an \<^verbatim>\<open>add_stock\<close> entry is logged.
\<close>

definition restoreStock :: "db \<Rightarrow> timestamp \<Rightarrow> string \<Rightarrow> order \<Rightarrow> (error + unit) \<times> db" where
  "restoreStock d now inputId ord =
     (case o_productId ord of
        None \<Rightarrow> (Inr (), d)
      | Some pid \<Rightarrow>
          if \<not> truthy pid then (Inr (), d)
          else
            (case findOneById (products d) pid of
               Inl e \<Rightarrow> (Inl e, d)
             | Inr None \<Rightarrow> (Inr (), d)
             | Inr (Some (productKey, prd)) \<Rightarrow>
                 let d1 = d\<lparr>products :=
                            updateOne (products d) productKey
                              (\<lambda>doc. doc\<lparr>stockQuantity := stockQuantity doc + quantity ord,
                                        p_updatedAt := now\<rparr>)\<rparr>
                 in
                 (case findCreator d1 (createdBy ord) of
                    Inl e \<Rightarrow> (Inl e, d1)
                  | Inr usr \<Rightarrow>
                      (Inr (),
                       logProductActivity d1 now pid (p_productCode prd) (p_productName prd)
                         AddStock (stockQuantity prd) (stockQuantity prd + quantity ord)
                         (quantity ord)
                         (if truthy (createdBy ord) then createdBy ord else ''system'')
                         (userNameOrSystem usr) (o_organizationId ord) inputId
                         (StockRestoredFromCancelledOrderFor (customerName ord))))))"

text \<open>
  The second half: the fee of 10 per piece is taken off the organization's credits by an
  \<^verbatim>\<open>$inc\<close>; nothing is compared with the balance and nothing else is written.
\<close>

definition deductCancellationFee :: "db \<Rightarrow> order \<Rightarrow> (error + unit) \<times> db" where
  "deductCancellationFee d ord =
     (let cancellationFee = quantity ord * 10 in
      case ObjectId (o_organizationId ord) of
        Inl e \<Rightarrow> (Inl e, d)
      | Inr orgKey \<Rightarrow>
          (Inr (),
           d\<lparr>organizations :=
               updateOne (organizations d) orgKey
                 (\<lambda>doc. doc\<lparr>credits := credits doc + (- of_int cancellationFee)\<rparr>)\<rparr>))"

text \<open>The whole block: the fee is reached only when the stock part has not thrown.\<close>

definition cancelOrderEffects :: "db \<Rightarrow> timestamp \<Rightarrow> string \<Rightarrow> order \<Rightarrow> (error + unit) \<times> db" where
  "cancelOrderEffects d now inputId ord =
     (case restoreStock d now inputId ord of
        (Inl e, d1) \<Rightarrow> (Inl e, d1)
      | (Inr _, d1) \<Rightarrow> deductCancellationFee d1 ord)"

text \<open>
  The rest of the procedure: the status and \<^verbatim>\<open>updatedAt\<close> of the order are written, then
  the creator is looked up and, when found, the activity is logged.
\<close>

definition writeStatus ::
  "db \<Rightarrow> timestamp \<Rightarrow> statusInput \<Rightarrow> string \<Rightarrow> order \<Rightarrow> (error + bool) \<times> db" where
  "writeStatus d now inp orderKey ord =
     (let d1 = d\<lparr>orders :=
                updateOne (orders d) orderKey
                  (\<lambda>doc. doc\<lparr>status := us_status inp, o_updatedAt := now\<rparr>)\<rparr>
      in
      case findCreator d1 (createdBy ord) of
        Inl e \<Rightarrow> (Inl e, d1)
      | Inr None \<Rightarrow> (Inr True, d1)
      | Inr (Some (userKey, u)) \<Rightarrow>
          (Inr True,
           logActivity d1 now userKey (u_name u) (UpdateOrderStatusTo (us_status inp))
             (us_id inp) (o_organizationId ord)))"

definition updateStatus :: "db \<Rightarrow> timestamp \<Rightarrow> statusInput \<Rightarrow> (error + bool) \<times> db" where
  "updateStatus d now inp =
     (case findOneById (orders d) (us_id inp) of
        Inl e \<Rightarrow> (Inl e, d)
      | Inr None \<Rightarrow> (Inl OrderNotFound, d)
      | Inr (Some (orderKey, ord)) \<Rightarrow>
          if us_status inp = Cancelled \<and> status ord \<noteq> Cancelled
          then
            (case cancelOrderEffects d now (us_id inp) ord of
               (Inl e, d1) \<Rightarrow> (Inl e, d1)
             | (Inr _, d1) \<Rightarrow> writeStatus d1 now inp orderKey ord)
          else writeStatus d now inp orderKey ord)"

subsection \<open>\<^verbatim>\<open>orders.create\<close> and \<^verbatim>\<open>orders.submitClientOrder\<close>\<close>

text \<open>
  The request of \<^verbatim>\<open>orders.create\<close> is an order without \<^verbatim>\<open>_id\<close>, \<^verbatim>\<open>createdAt\<close> and
  \<^verbatim>\<open>updatedAt\<close>; the schema has filled in the defaults of the cost fields. The functions
  below are the bodies of the mutations, run on a request that has passed its schema.
  \<^verbatim>\<open>insertedId\<close> is the key the driver generates for the new order.
\<close>

record orderInput =
  n_organizationId :: string
  n_productId :: "string option"
  n_productCode :: "string option"
  n_productName :: string
  n_price :: rat
  n_quantity :: int
  n_channel :: channel
  n_customerName :: string
  n_customerContact :: string
  n_shippingAddress :: string
  n_status :: orderStatus
  n_createdBy :: string
  n_orderSource :: orderSource
  n_orderDate :: "string option"
  n_pickPackCost :: rat
  n_bubbleCost :: rat
  n_paperInsideCost :: rat
  n_cancelOrderCost :: rat
  n_codCost :: rat
  n_boxCost :: rat
  n_deliveryFeeCost :: rat
  n_totalShippingCost :: rat

text \<open>\<^verbatim>\<open>{ ...input, createdAt: new Date(), updatedAt: new Date() }\<close>.\<close>

definition orderDocument :: "orderInput \<Rightarrow> timestamp \<Rightarrow> order" where
  "orderDocument inp now =
     \<lparr>o_organizationId = n_organizationId inp,
      o_productId = n_productId inp,
      o_productCode = n_productCode inp,
      o_productName = n_productName inp,
      o_price = n_price inp,
      quantity = n_quantity inp,
      o_channel = n_channel inp,
      customerName = n_customerName inp,
      customerContact = n_customerContact inp,
      shippingAddress = n_shippingAddress inp,
      status = n_status inp,
      createdBy = n_createdBy inp,
      orderSource = n_orderSource inp,
      orderDate = n_orderDate inp,
      pickPackCost = Some (n_pickPackCost inp),
      bubbleCost = Some (n_bubbleCost inp),
      paperInsideCost = Some (n_paperInsideCost inp),
      cancelOrderCost = Some (n_cancelOrderCost inp),
      codCost = Some (n_codCost inp),
      boxCost = Some (n_boxCost inp),
      deliveryFeeCost = Some (n_deliveryFeeCost inp),
      totalShippingCost = Some (n_totalShippingCost inp),
      o_createdAt = now,
      o_updatedAt = now\<rparr>"

text \<open>
  \<^verbatim>\<open>products.findOne({ _id: new ObjectId(pid), organizationId })\<close>: the product must
  belong to the organization of the request.
\<close>

definition findProductOfOrganization ::
  "db \<Rightarrow> string \<Rightarrow> string \<Rightarrow> error + (string \<times> product) option" where
  "findProductOfOrganization d pid organizationId =
     (case findOneById (products d) pid of
        Inl e \<Rightarrow> Inl e
      | Inr None \<Rightarrow> Inr None
      | Inr (Some (productKey, prd)) \<Rightarrow>
          Inr (if p_organizationId prd = organizationId then Some (productKey, prd) else None))"

text \<open>
  The block of \<^verbatim>\<open>orders.create\<close> guarded by \<^verbatim>\<open>if (input.productId)\<close>. It returns the
  request with the product's code, name and price filled in where the request leaves them
  falsy.
\<close>

definition reduceStockForOrder ::
  "db \<Rightarrow> timestamp \<Rightarrow> orderInput \<Rightarrow> (error + orderInput) \<times> db" where
  "reduceStockForOrder d now inp =
     (case n_productId inp of
        None \<Rightarrow> (Inr inp, d)
      | Some pid \<Rightarrow>
          if \<not> truthy pid then (Inr inp, d)
          else
            (case findProductOfOrganization d pid (n_organizationId inp) of
               Inl e \<Rightarrow> (Inl e, d)
             | Inr None \<Rightarrow> (Inl ProductNotFound, d)
             | Inr (Some (productKey, prd)) \<Rightarrow>
                 if \<not> isActive prd then (Inl ProductNotActive, d)
                 else if stockQuantity prd < n_quantity inp
                 then (Inl (InsufficientStock (stockQuantity prd) (n_quantity inp)), d)
                 else
                   let d1 = d\<lparr>products :=
                              updateOne (products d) productKey
                                (\<lambda>doc. doc\<lparr>stockQuantity := stockQuantity doc + (- n_quantity inp),
                                          p_updatedAt := now\<rparr>)\<rparr>;
                       inp1 = inp\<lparr>n_productCode :=
                                    (case n_productCode inp of
                                       None \<Rightarrow> Some (p_productCode prd)
                                     | Some c \<Rightarrow> if truthy c then Some c else Some (p_productCode prd)),
                                  n_productName :=
                                    (if truthy (n_productName inp) then n_productName inp
                                     else p_productName prd),
                                  n_price := (if n_price inp = 0 then p_price prd else n_price inp)\<rparr>
                   in
                   (case findCreator d1 (n_createdBy inp1) of
                      Inl e \<Rightarrow> (Inl e, d1)
                    | Inr usr \<Rightarrow>
                        (Inr inp1,
                         logProductActivity d1 now pid (p_productCode prd) (p_productName prd)
                           ReduceStock (stockQuantity prd) (stockQuantity prd - n_quantity inp)
                           (- n_quantity inp)
                           (if truthy (n_createdBy inp1) then n_createdBy inp1 else ''system'')
                           (userNameOrSystem usr) (n_organizationId inp1) []
                           (StockReducedByOrderFor (n_customerName inp1))))))"

definition create :: "db \<Rightarrow> timestamp \<Rightarrow> string \<Rightarrow> orderInput \<Rightarrow> (error + string) \<times> db" where
  "create d now insertedId inp =
     (case reduceStockForOrder d now inp of
        (Inl e, d2) \<Rightarrow> (Inl e, d2)
      | (Inr inp1, d2) \<Rightarrow>
          let d3 = d2\<lparr>orders := (orders d2)(insertedId \<mapsto> orderDocument inp1 now)\<rparr> in
          (case findCreator d3 (n_createdBy inp1) of
             Inl e \<Rightarrow> (Inl e, d3)
           | Inr None \<Rightarrow> (Inr insertedId, d3)
           | Inr (Some (userKey, u)) \<Rightarrow>
               (Inr insertedId,
                logActivity d3 now userKey (u_name u) CreateOrder insertedId
                  (n_organizationId inp1))))"

record clientOrderInput =
  s_organizationId :: string
  s_productId :: "string option"
  s_productCode :: "string option"
  s_productName :: string
  s_price :: rat
  s_quantity :: int
  s_channel :: channel
  s_customerName :: string
  s_customerContact :: string
  s_shippingAddress :: string
  s_orderDate :: "string option"

text \<open>
  \<^verbatim>\<open>{ ...input, orderSource: "client", status: "pending", createdBy: "client", ... }\<close>: the
  cost fields are absent from the stored document.
\<close>

definition clientOrderDocument :: "clientOrderInput \<Rightarrow> timestamp \<Rightarrow> order" where
  "clientOrderDocument inp now =
     \<lparr>o_organizationId = s_organizationId inp,
      o_productId = s_productId inp,
      o_productCode = s_productCode inp,
      o_productName = s_productName inp,
      o_price = s_price inp,
      quantity = s_quantity inp,
      o_channel = s_channel inp,
      customerName = s_customerName inp,
      customerContact = s_customerContact inp,
      shippingAddress = s_shippingAddress inp,
      status = Pending,
      createdBy = ''client'',
      orderSource = Client,
      orderDate = s_orderDate inp,
      pickPackCost = None,
      bubbleCost = None,
      paperInsideCost = None,
      cancelOrderCost = None,
      codCost = None,
      boxCost = None,
      deliveryFeeCost = None,
      totalShippingCost = None,
      o_createdAt = now,
      o_updatedAt = now\<rparr>"

definition submitClientOrder ::
  "db \<Rightarrow> timestamp \<Rightarrow> string \<Rightarrow> clientOrderInput \<Rightarrow> (error + string) \<times> db" where
  "submitClientOrder d now insertedId inp =
     (case (case s_productId inp of
              None \<Rightarrow> (Inr (), d)
            | Some pid \<Rightarrow>
                if \<not> truthy pid then (Inr (), d)
                else
                  (case findProductOfOrganization d pid (s_organizationId inp) of
                     Inl e \<Rightarrow> (Inl e, d)
                   | Inr None \<Rightarrow> (Inl ProductNotFound, d)
                   | Inr (Some (productKey, prd)) \<Rightarrow>
                       if \<not> isActive prd then (Inl ProductNotAvailable, d)
                       else if stockQuantity prd < s_quantity inp
                       then (Inl (InsufficientStock (stockQuantity prd) (s_quantity inp)), d)
                       else
                         (Inr (),
                          d\<lparr>products :=
                              updateOne (products d) productKey
                                (\<lambda>doc. doc\<lparr>stockQuantity := stockQuantity doc + (- s_quantity inp),
                                          p_updatedAt := now\<rparr>)\<rparr>))) of
        (Inl e, d1) \<Rightarrow> (Inl e, d1)
      | (Inr _, d1) \<Rightarrow>
          let d2 = d1\<lparr>orders := (orders d1)(insertedId \<mapsto> clientOrderDocument inp now)\<rparr> in
          (Inr insertedId,
           logActivity d2 now ''client'' (s_customerName inp) SubmitClientOrder insertedId
             (s_organizationId inp)))"

subsection \<open>\<^verbatim>\<open>organizations.addCredits\<close>\<close>

text \<open>
  The body of the mutation. Its schema admits a positive \<^verbatim>\<open>amount\<close>; nothing below
  depends on the sign.
\<close>

record addCreditsInput =
  ac_organizationId :: string
  ac_amount :: rat
  ac_description :: string
  ac_performedBy :: "string option"
  ac_performedByName :: "string option"

record creditsResult =
  cr_success :: bool
  cr_newBalance :: rat

definition addCredits ::
  "db \<Rightarrow> timestamp \<Rightarrow> addCreditsInput \<Rightarrow> (error + creditsResult) \<times> db" where
  "addCredits d now inp =
     (case findOneById (organizations d) (ac_organizationId inp) of
        Inl e \<Rightarrow> (Inl e, d)
      | Inr None \<Rightarrow> (Inl OrganizationNotFound, d)
      | Inr (Some (orgKey, org)) \<Rightarrow>
          let before = credits org;
              after = before + ac_amount inp;
              d1 = d\<lparr>organizations :=
                     updateOne (organizations d) orgKey
                       (\<lambda>doc. doc\<lparr>credits := after, g_updatedAt := now\<rparr>)\<rparr>;
              d2 = d1\<lparr>credit_transactions := credit_transactions d1 @
                     [\<lparr>t_organizationId = ac_organizationId inp,
                       t_organizationName = g_name org,
                       t_type = Add,
                       amount = ac_amount inp,
                       balanceBefore = before,
                       balanceAfter = after,
                       t_description = Text (ac_description inp),
                       t_orderId = None,
                       t_performedBy = ac_performedBy inp,
                       t_performedByName = ac_performedByName inp,
                       t_createdAt = now\<rparr>]\<rparr>
          in (Inr \<lparr>cr_success = True, cr_newBalance = after\<rparr>, d2))"

subsection \<open>A small store for concrete runs\<close>

text \<open>
  One organization, one product with 5 pieces in stock, one user and one order of 2 pieces
  at 350 each. The request \<open>scenarioInput\<close> carries the costs 40, 10, 6, 0 and 21 and
  omits the box and delivery fee: a total of 77.
\<close>

definition exampleOrderId :: string where "exampleOrderId = ''64b7f0c2a1d3e4f5a6b7c801''"
definition exampleOrgId :: string where "exampleOrgId = ''64b7f0c2a1d3e4f5a6b7c802''"
definition exampleProductId :: string where "exampleProductId = ''64b7f0c2a1d3e4f5a6b7c803''"
definition exampleUserId :: string where "exampleUserId = ''64b7f0c2a1d3e4f5a6b7c804''"

definition exampleOrder :: "string \<Rightarrow> orderStatus \<Rightarrow> order" where
  "exampleOrder creator st =
     \<lparr>o_organizationId = exampleOrgId,
      o_productId = Some exampleProductId,
      o_productCode = Some ''VITC'',
      o_productName = ''Vitamin C'',
      o_price = 350,
      quantity = 2,
      o_channel = Line,
      customerName = ''Somchai'',
      customerContact = ''0800000000'',
      shippingAddress = ''Bangkok'',
      status = st,
      createdBy = creator,
      orderSource = Admin,
      orderDate = None,
      pickPackCost = Some 0,
      bubbleCost = Some 0,
      paperInsideCost = Some 0,
      cancelOrderCost = Some 0,
      codCost = Some 0,
      boxCost = Some 0,
      deliveryFeeCost = Some 0,
      totalShippingCost = Some 0,
      o_createdAt = 1,
      o_updatedAt = 1\<rparr>"

definition exampleProduct :: "bool \<Rightarrow> product" where
  "exampleProduct active =
     \<lparr>p_organizationId = exampleOrgId,
      p_productCode = ''VITC'',
      p_productName = ''Vitamin C'',
      p_price = 350,
      stockQuantity = 5,
      isActive = active,
      p_updatedAt = 1\<rparr>"

definition exampleOrganization :: "rat \<Rightarrow> organization" where
  "exampleOrganization c = \<lparr>g_name = ''Acme Supplements'', credits = c, g_updatedAt = 1\<rparr>"

definition exampleStore :: "rat \<Rightarrow> bool \<Rightarrow> order \<Rightarrow> db" where
  "exampleStore c active ord =
     \<lparr>products = [exampleProductId \<mapsto> exampleProduct active],
      organizations = [exampleOrgId \<mapsto> exampleOrganization c],
      orders = [exampleOrderId \<mapsto> ord],
      users = [exampleUserId \<mapsto> \<lparr>u_name = ''Malee''\<rparr>],
      credit_transactions = [],
      product_logs = [],
      user_logs = []\<rparr>"

abbreviation pendingStore :: "rat \<Rightarrow> db" where
  "pendingStore c \<equiv> exampleStore c True (exampleOrder exampleUserId Pending)"

definition scenarioInput :: shippingCostInput where
  "scenarioInput =
     \<lparr>sc_id = exampleOrderId,
      sc_organizationId = exampleOrgId,
      i_pickPackCost = Some 40,
      i_bubbleCost = Some 10,
      i_paperInsideCost = Some 6,
      i_cancelOrderCost = Some 0,
      i_codCost = Some 21,
      i_boxCost = None,
      i_deliveryFeeCost = None\<rparr>"

text \<open>
  A cancellation request, and an order placed through \<^verbatim>\<open>orders.submitClientOrder\<close> for
  2 pieces of the product of the store; \<open>clientStore\<close> is the store after that submission.
\<close>

definition cancelInput :: "string \<Rightarrow> statusInput" where
  "cancelInput i = \<lparr>us_id = i, us_status = Cancelled\<rparr>"

definition clientOrderId :: string where "clientOrderId = ''64b7f0c2a1d3e4f5a6b7c805''"

definition clientRequest :: clientOrderInput where
  "clientRequest =
     \<lparr>s_organizationId = exampleOrgId,
      s_productId = Some exampleProductId,
      s_productCode = None,
      s_productName = ''Vitamin C'',
      s_price = 350,
      s_quantity = 2,
      s_channel = Shopee,
      s_customerName = ''Somsri'',
      s_customerContact = ''0811111111'',
      s_shippingAddress = ''Chiang Mai'',
      s_orderDate = None\<rparr>"

abbreviation cancelledStore :: "rat \<Rightarrow> db" where
  "cancelledStore c \<equiv> exampleStore c True (exampleOrder exampleUserId Cancelled)"

definition clientStore :: db where
  "clientStore = snd (submitClientOrder (pendingStore 100) 2 clientOrderId clientRequest)"

text \<open>
  A request to \<^verbatim>\<open>orders.create\<close> for 2 pieces of the product, and the store whose
  product is not active.
\<close>

definition adminRequest :: orderInput where
  "adminRequest =
     \<lparr>n_organizationId = exampleOrgId,
      n_productId = Some exampleProductId,
      n_productCode = None,
      n_productName = ''Vitamin C'',
      n_price = 350,
      n_quantity = 2,
      n_channel = Line,
      n_customerName = ''Somchai'',
      n_customerContact = ''0800000000'',
      n_shippingAddress = ''Bangkok'',
      n_status = Pending,
      n_createdBy = exampleUserId,
      n_orderSource = Admin,
      n_orderDate = None,
      n_pickPackCost = 0,
      n_bubbleCost = 0,
      n_paperInsideCost = 0,
      n_cancelOrderCost = 0,
      n_codCost = 0,
      n_boxCost = 0,
      n_deliveryFeeCost = 0,
      n_totalShippingCost = 0\<rparr>"

abbreviation inactiveStore :: db where
  "inactiveStore \<equiv> exampleStore 100 False (exampleOrder exampleUserId Pending)"

section \<open>Properties\<close>

subsection \<open>Auxiliary facts\<close>

lemma ObjectId_examples:
  "ObjectId exampleOrderId = Inr exampleOrderId"
  "ObjectId exampleOrgId = Inr exampleOrgId"
  "ObjectId exampleProductId = Inr exampleProductId"
  "ObjectId exampleUserId = Inr exampleUserId"
  "ObjectId ''client'' = Inl BSONError"
  by (simp_all add: ObjectId_def isHexDigit_def toLowerHex_def exampleOrderId_def exampleOrgId_def
      exampleProductId_def exampleUserId_def)

lemma inputTotal_scenario: "inputTotal scenarioInput = 77"
  by (simp add: inputTotal_def scenarioInput_def orZero_def)

lemma scenarioInput_fields:
  "sc_id scenarioInput = exampleOrderId"
  "sc_organizationId scenarioInput = exampleOrgId"
  "i_pickPackCost scenarioInput = Some 40"
  "i_bubbleCost scenarioInput = Some 10"
  "i_paperInsideCost scenarioInput = Some 6"
  "i_cancelOrderCost scenarioInput = Some 0"
  "i_codCost scenarioInput = Some 21"
  "i_boxCost scenarioInput = None"
  "i_deliveryFeeCost scenarioInput = None"
  by (simp_all add: scenarioInput_def)

lemma findOneById_Some:
  "findOneById coll s = Inr (Some (k, x)) \<longleftrightarrow> ObjectId s = Inr k \<and> coll k = Some x"
  by (auto simp: findOneById_def split: sum.splits option.splits)

lemma updateShippingCost_total:
  "orZero (i_pickPackCost inp) + orZero (i_bubbleCost inp) + orZero (i_paperInsideCost inp) +
   orZero (i_cancelOrderCost inp) + orZero (i_codCost inp) + orZero (i_boxCost inp) +
   orZero (i_deliveryFeeCost inp) = inputTotal inp"
  by (simp add: inputTotal_def)

lemma example_lookups:
  "findOneById (orders (exampleStore c a ord)) exampleOrderId = Inr (Some (exampleOrderId, ord))"
  "findOneById (organizations (exampleStore c a ord)) exampleOrgId =
     Inr (Some (exampleOrgId, exampleOrganization c))"
  "findOneById (products (exampleStore c a ord)) exampleProductId =
     Inr (Some (exampleProductId, exampleProduct a))"
  by (simp_all add: findOneById_def ObjectId_examples exampleStore_def)

lemma updateShippingCost_accepted:
  assumes "findOneById (orders d) (sc_id inp) = Inr (Some (orderKey, ord))"
    and "findOneById (organizations d) (sc_organizationId inp) = Inr (Some (orgKey, org))"
    and "\<not> credits org < inputTotal inp"
  shows "updateShippingCost d now inp =
    (Inr \<lparr>success = True, r_totalShippingCost = inputTotal inp,
          newBalance = credits org - inputTotal inp\<rparr>,
     d\<lparr>organizations :=
         (organizations d)(orgKey \<mapsto> org\<lparr>credits := credits org - inputTotal inp, g_updatedAt := now\<rparr>),
       credit_transactions := credit_transactions d @
         [\<lparr>t_organizationId = sc_organizationId inp,
           t_organizationName = g_name org,
           t_type = Deduct,
           amount = inputTotal inp,
           balanceBefore = credits org,
           balanceAfter = credits org - inputTotal inp,
           t_description = ShippingCostForOrder (o_productName ord)
             (if quantity ord = 0 then 1 else quantity ord),
           t_orderId = Some (sc_id inp),
           t_performedBy = None,
           t_performedByName = None,
           t_createdAt = now\<rparr>],
       orders :=
         (orders d)(orderKey \<mapsto>
            ord\<lparr>pickPackCost := Some (orZero (i_pickPackCost inp)),
                bubbleCost := Some (orZero (i_bubbleCost inp)),
                paperInsideCost := Some (orZero (i_paperInsideCost inp)),
                cancelOrderCost := Some (orZero (i_cancelOrderCost inp)),
                codCost := Some (orZero (i_codCost inp)),
                boxCost := Some (orZero (i_boxCost inp)),
                deliveryFeeCost := Some (orZero (i_deliveryFeeCost inp)),
                totalShippingCost := Some (inputTotal inp),
                o_updatedAt := now\<rparr>)\<rparr>)"
proof -
  have o: "orders d orderKey = Some ord" and g: "organizations d orgKey = Some org"
    using assms(1,2) by (simp_all add: findOneById_Some)
  show ?thesis
    using assms o g
    by (simp add: updateShippingCost_def Let_def updateShippingCost_total updateOne_def)
qed

lemma updateShippingCost_Inr_found:
  assumes "fst (updateShippingCost d now inp) = Inr r"
  shows "\<exists>orderKey ord orgKey org.
     findOneById (orders d) (sc_id inp) = Inr (Some (orderKey, ord)) \<and>
     findOneById (organizations d) (sc_organizationId inp) = Inr (Some (orgKey, org)) \<and>
     \<not> credits org < inputTotal inp"
  using assms
  by (auto simp: updateShippingCost_def Let_def updateShippingCost_total
      split: sum.splits option.splits if_splits prod.splits)

lemma scenario_order_found:
  "findOneById (orders (exampleStore c a ord)) (sc_id scenarioInput) =
     Inr (Some (exampleOrderId, ord))"
  by (simp add: scenarioInput_def example_lookups)

lemma scenario_organization_found:
  "findOneById (organizations (exampleStore c a ord)) (sc_organizationId scenarioInput) =
     Inr (Some (exampleOrgId, exampleOrganization c))"
  by (simp add: scenarioInput_def example_lookups)

lemma scenario_accepted:
  "updateShippingCost (exampleStore 100 a ord) 7 scenarioInput =
     (Inr \<lparr>success = True, r_totalShippingCost = 77, newBalance = 23\<rparr>,
      snd (updateShippingCost (exampleStore 100 a ord) 7 scenarioInput))"
proof -
  have c: "\<not> credits (exampleOrganization 100) < inputTotal scenarioInput"
    by (simp add: inputTotal_scenario exampleOrganization_def)
  show ?thesis
    using updateShippingCost_accepted [OF scenario_order_found scenario_organization_found c, of a ord 7]
    by (simp add: inputTotal_scenario exampleOrganization_def)
qed

subsection \<open>Shipping-cost deduction\<close>

text \<open>
  C1. When the order and the organization of a call to \<^verbatim>\<open>orders.updateShippingCost\<close> are
  found and the sum of the seven cost fields of the request exceeds the organization's
  credits, the call fails with the insufficient-credits error, which carries the required
  and the available amount, and the store it leaves behind is the store it started from:
  credits, order and ledger are untouched.
\<close>

theorem updateShippingCost_insufficient_credits:
  assumes "findOneById (orders d) (sc_id inp) = Inr (Some (orderKey, ord))"
    and "findOneById (organizations d) (sc_organizationId inp) = Inr (Some (orgKey, org))"
    and "credits org < inputTotal inp"
  shows "updateShippingCost d now inp =
           (Inl (InsufficientCredits (inputTotal inp) (credits org)), d)"
  using assms by (simp add: updateShippingCost_def Let_def updateShippingCost_total)

theorem updateShippingCost_insufficient_credits_witness:
  "findOneById (orders (exampleStore 50 True (exampleOrder exampleUserId Pending))) (sc_id scenarioInput)
     = Inr (Some (exampleOrderId, exampleOrder exampleUserId Pending)) \<and>
   findOneById (organizations (exampleStore 50 True (exampleOrder exampleUserId Pending)))
     (sc_organizationId scenarioInput) = Inr (Some (exampleOrgId, exampleOrganization 50)) \<and>
   credits (exampleOrganization 50) < inputTotal scenarioInput \<and>
   updateShippingCost (exampleStore 50 True (exampleOrder exampleUserId Pending)) 7 scenarioInput =
     (Inl (InsufficientCredits 77 50), exampleStore 50 True (exampleOrder exampleUserId Pending))"
proof -
  have 1: "findOneById (orders (exampleStore 50 True (exampleOrder exampleUserId Pending))) (sc_id scenarioInput)
     = Inr (Some (exampleOrderId, exampleOrder exampleUserId Pending))"
    by (simp add: scenarioInput_def example_lookups)
  have 2: "findOneById (organizations (exampleStore 50 True (exampleOrder exampleUserId Pending)))
     (sc_organizationId scenarioInput) = Inr (Some (exampleOrgId, exampleOrganization 50))"
    by (simp add: scenarioInput_def example_lookups)
  have 3: "credits (exampleOrganization 50) < inputTotal scenarioInput"
    by (simp add: inputTotal_scenario exampleOrganization_def)
  show ?thesis
    using 1 2 3 updateShippingCost_insufficient_credits [OF 1 2 3, of 7]
    by (simp add: inputTotal_scenario exampleOrganization_def)
qed

text \<open>
  C2. A successful call to \<^verbatim>\<open>orders.updateShippingCost\<close> appends exactly one record to
  the credit-transaction ledger: its type is \<^verbatim>\<open>deduct\<close>, its amount is the total taken off
  the organization's credits, its \<^verbatim>\<open>balanceBefore\<close> is the credits read before the deduction
  and its \<^verbatim>\<open>balanceAfter\<close> is \<^verbatim>\<open>balanceBefore\<close> minus the amount.
\<close>

theorem updateShippingCost_appends_deduct:
  assumes "updateShippingCost d now inp = (Inr r, d')"
    and "findOneById (organizations d) (sc_organizationId inp) = Inr (Some (orgKey, org))"
  shows "\<exists>t. credit_transactions d' = credit_transactions d @ [t] \<and>
             t_type t = Deduct \<and>
             amount t = inputTotal inp \<and>
             balanceBefore t = credits org \<and>
             balanceAfter t = balanceBefore t - amount t \<and>
             map_option credits (organizations d' orgKey) = Some (credits org - amount t)"
proof -
  from assms(1) have "fst (updateShippingCost d now inp) = Inr r" by simp
  then obtain orderKey ord orgKey' org' where
    o: "findOneById (orders d) (sc_id inp) = Inr (Some (orderKey, ord))" and
    g: "findOneById (organizations d) (sc_organizationId inp) = Inr (Some (orgKey', org'))" and
    c: "\<not> credits org' < inputTotal inp"
    using updateShippingCost_Inr_found by blast
  from g assms(2) have same: "orgKey' = orgKey" "org' = org" by simp_all
  have "d' = snd (updateShippingCost d now inp)" using assms(1) by simp
  then show ?thesis
    using updateShippingCost_accepted [OF o g c, of now] same by simp
qed

theorem updateShippingCost_appends_deduct_witness:
  "updateShippingCost (pendingStore 100) 7 scenarioInput =
     (Inr \<lparr>success = True, r_totalShippingCost = 77, newBalance = 23\<rparr>,
      snd (updateShippingCost (pendingStore 100) 7 scenarioInput)) \<and>
   findOneById (organizations (pendingStore 100)) (sc_organizationId scenarioInput) =
     Inr (Some (exampleOrgId, exampleOrganization 100)) \<and>
   (\<exists>t. credit_transactions (snd (updateShippingCost (pendingStore 100) 7 scenarioInput)) = [t] \<and>
        t_type t = Deduct \<and> amount t = 77 \<and> balanceBefore t = 100 \<and> balanceAfter t = 23 \<and>
        map_option credits
          (organizations (snd (updateShippingCost (pendingStore 100) 7 scenarioInput)) exampleOrgId) =
          Some 23)"
proof -
  let ?d = "pendingStore 100"
  note run = scenario_accepted [of True "exampleOrder exampleUserId Pending"]
  note g = scenario_organization_found [of 100 True "exampleOrder exampleUserId Pending"]
  have e: "credit_transactions ?d = []" by (simp add: exampleStore_def)
  from updateShippingCost_appends_deduct [OF run g] obtain t where
    t: "credit_transactions (snd (updateShippingCost ?d 7 scenarioInput)) =
          credit_transactions ?d @ [t]"
       "t_type t = Deduct" "amount t = inputTotal scenarioInput"
       "balanceBefore t = credits (exampleOrganization 100)"
       "balanceAfter t = balanceBefore t - amount t"
       "map_option credits (organizations (snd (updateShippingCost ?d 7 scenarioInput)) exampleOrgId) =
          Some (credits (exampleOrganization 100) - amount t)"
    by blast
  have "credit_transactions (snd (updateShippingCost ?d 7 scenarioInput)) = [t] \<and>
        t_type t = Deduct \<and> amount t = 77 \<and> balanceBefore t = 100 \<and> balanceAfter t = 23 \<and>
        map_option credits (organizations (snd (updateShippingCost ?d 7 scenarioInput)) exampleOrgId) =
          Some 23"
    using t e by (simp add: inputTotal_scenario exampleOrganization_def)
  then have "\<exists>t. credit_transactions (snd (updateShippingCost ?d 7 scenarioInput)) = [t] \<and>
        t_type t = Deduct \<and> amount t = 77 \<and> balanceBefore t = 100 \<and> balanceAfter t = 23 \<and>
        map_option credits (organizations (snd (updateShippingCost ?d 7 scenarioInput)) exampleOrgId) =
          Some 23" ..
  with run g show ?thesis by blast
qed

text \<open>
  C3, as the code has it. A successful call to \<^verbatim>\<open>orders.updateShippingCost\<close> stores the
  seven cost fields and their total in the order and leaves the order's status as it was:
  the procedure writes no status.
\<close>

theorem updateShippingCost_persists_costs_keeps_status:
  assumes "updateShippingCost d now inp = (Inr r, d')"
    and "findOneById (orders d) (sc_id inp) = Inr (Some (orderKey, ord))"
  shows "orders d' orderKey =
           Some (ord\<lparr>pickPackCost := Some (orZero (i_pickPackCost inp)),
                     bubbleCost := Some (orZero (i_bubbleCost inp)),
                     paperInsideCost := Some (orZero (i_paperInsideCost inp)),
                     cancelOrderCost := Some (orZero (i_cancelOrderCost inp)),
                     codCost := Some (orZero (i_codCost inp)),
                     boxCost := Some (orZero (i_boxCost inp)),
                     deliveryFeeCost := Some (orZero (i_deliveryFeeCost inp)),
                     totalShippingCost := Some (inputTotal inp),
                     o_updatedAt := now\<rparr>) \<and>
         map_option status (orders d' orderKey) = Some (status ord)"
proof -
  from assms(1) have "fst (updateShippingCost d now inp) = Inr r" by simp
  then obtain orderKey' ord' orgKey org where
    o: "findOneById (orders d) (sc_id inp) = Inr (Some (orderKey', ord'))" and
    g: "findOneById (organizations d) (sc_organizationId inp) = Inr (Some (orgKey, org))" and
    c: "\<not> credits org < inputTotal inp"
    using updateShippingCost_Inr_found by blast
  from o assms(2) have same: "orderKey' = orderKey" "ord' = ord" by simp_all
  have "d' = snd (updateShippingCost d now inp)" using assms(1) by simp
  then show ?thesis
    using updateShippingCost_accepted [OF o g c, of now] same by simp
qed

theorem updateShippingCost_persists_costs_keeps_status_witness:
  "updateShippingCost (pendingStore 100) 7 scenarioInput =
     (Inr \<lparr>success = True, r_totalShippingCost = 77, newBalance = 23\<rparr>,
      snd (updateShippingCost (pendingStore 100) 7 scenarioInput)) \<and>
   findOneById (orders (pendingStore 100)) (sc_id scenarioInput) =
     Inr (Some (exampleOrderId, exampleOrder exampleUserId Pending)) \<and>
   map_option totalShippingCost
     (orders (snd (updateShippingCost (pendingStore 100) 7 scenarioInput)) exampleOrderId) =
     Some (Some 77) \<and>
   map_option pickPackCost
     (orders (snd (updateShippingCost (pendingStore 100) 7 scenarioInput)) exampleOrderId) =
     Some (Some 40) \<and>
   map_option boxCost
     (orders (snd (updateShippingCost (pendingStore 100) 7 scenarioInput)) exampleOrderId) =
     Some (Some 0) \<and>
   map_option status
     (orders (snd (updateShippingCost (pendingStore 100) 7 scenarioInput)) exampleOrderId) =
     Some Pending"
proof -
  note run = scenario_accepted [of True "exampleOrder exampleUserId Pending"]
  note o = scenario_order_found [of 100 True "exampleOrder exampleUserId Pending"]
  show ?thesis
    using updateShippingCost_persists_costs_keeps_status [OF run o] run o
    by (simp add: inputTotal_scenario scenarioInput_fields orZero_def exampleOrder_def)
qed

text \<open>
  C3, as the claim states it, fails: after the successful run of the scenario the order is
  still \<^verbatim>\<open>pending\<close>, not \<^verbatim>\<open>sent_to_logistic\<close>.
\<close>

theorem updateShippingCost_status_counterexample:
  "fst (updateShippingCost (pendingStore 100) 7 scenarioInput) =
     Inr \<lparr>success = True, r_totalShippingCost = 77, newBalance = 23\<rparr> \<and>
   map_option status
     (orders (snd (updateShippingCost (pendingStore 100) 7 scenarioInput)) exampleOrderId) =
     Some Pending \<and>
   map_option status
     (orders (snd (updateShippingCost (pendingStore 100) 7 scenarioInput)) exampleOrderId) \<noteq>
     Some SentToLogistic"
proof -
  have c: "\<not> credits (exampleOrganization 100) < inputTotal scenarioInput"
    by (simp add: inputTotal_scenario exampleOrganization_def)
  show ?thesis
    using updateShippingCost_accepted [OF scenario_order_found scenario_organization_found c,
        of True "exampleOrder exampleUserId Pending" 7]
    by (simp add: inputTotal_scenario exampleOrganization_def exampleOrder_def)
qed

text \<open>
  C8. \<^verbatim>\<open>orders.updateShippingCost\<close> recomputes nothing: for every store, order and request
  of a successful call, the total it returns is the sum of the seven cost fields of the
  request, an omitted field counting as 0, and that same number is what it stores as the
  order's \<^verbatim>\<open>totalShippingCost\<close>, takes off the credits and records in the ledger. The
  order's quantity and price do not occur in it.
\<close>

theorem updateShippingCost_trusts_request:
  assumes "updateShippingCost d now inp = (Inr r, d')"
    and "findOneById (orders d) (sc_id inp) = Inr (Some (orderKey, ord))"
    and "findOneById (organizations d) (sc_organizationId inp) = Inr (Some (orgKey, org))"
  shows "r_totalShippingCost r =
           orZero (i_pickPackCost inp) + orZero (i_bubbleCost inp) +
           orZero (i_paperInsideCost inp) + orZero (i_cancelOrderCost inp) +
           orZero (i_codCost inp) + orZero (i_boxCost inp) + orZero (i_deliveryFeeCost inp) \<and>
         map_option totalShippingCost (orders d' orderKey) = Some (Some (r_totalShippingCost r)) \<and>
         map_option credits (organizations d' orgKey) = Some (credits org - r_totalShippingCost r) \<and>
         amount (last (credit_transactions d')) = r_totalShippingCost r"
proof -
  from assms(1) have "fst (updateShippingCost d now inp) = Inr r" by simp
  then obtain orderKey' ord' orgKey' org' where
    o: "findOneById (orders d) (sc_id inp) = Inr (Some (orderKey', ord'))" and
    g: "findOneById (organizations d) (sc_organizationId inp) = Inr (Some (orgKey', org'))" and
    c: "\<not> credits org' < inputTotal inp"
    using updateShippingCost_Inr_found by blast
  from o g assms(2,3) have same: "orderKey' = orderKey" "ord' = ord" "orgKey' = orgKey" "org' = org"
    by simp_all
  have "d' = snd (updateShippingCost d now inp)" "r = projr (fst (updateShippingCost d now inp))"
    using assms(1) by simp_all
  then show ?thesis
    using updateShippingCost_accepted [OF o g c, of now] same
    by (simp add: inputTotal_def)
qed

theorem updateShippingCost_trusts_request_witness:
  "updateShippingCost (pendingStore 100) 7 scenarioInput =
     (Inr \<lparr>success = True, r_totalShippingCost = 77, newBalance = 23\<rparr>,
      snd (updateShippingCost (pendingStore 100) 7 scenarioInput)) \<and>
   findOneById (orders (pendingStore 100)) (sc_id scenarioInput) =
     Inr (Some (exampleOrderId, exampleOrder exampleUserId Pending)) \<and>
   findOneById (organizations (pendingStore 100)) (sc_organizationId scenarioInput) =
     Inr (Some (exampleOrgId, exampleOrganization 100)) \<and>
   (77 :: rat) = 40 + 10 + 6 + 0 + 21 + 0 + 0 \<and>
   map_option totalShippingCost
     (orders (snd (updateShippingCost (pendingStore 100) 7 scenarioInput)) exampleOrderId) =
     Some (Some 77) \<and>
   map_option credits
     (organizations (snd (updateShippingCost (pendingStore 100) 7 scenarioInput)) exampleOrgId) =
     Some (100 - 77) \<and>
   amount (last (credit_transactions (snd (updateShippingCost (pendingStore 100) 7 scenarioInput)))) = 77"
proof -
  note run = scenario_accepted [of True "exampleOrder exampleUserId Pending"]
  note o = scenario_order_found [of 100 True "exampleOrder exampleUserId Pending"]
  note g = scenario_organization_found [of 100 True "exampleOrder exampleUserId Pending"]
  show ?thesis
    using updateShippingCost_trusts_request [OF run o g] run o g
    by (simp add: exampleOrganization_def)
qed

subsection \<open>Order cancellation: auxiliary facts\<close>

lemma restoreStock_frame:
  "credit_transactions (snd (restoreStock d now i ord)) = credit_transactions d"
  "orders (snd (restoreStock d now i ord)) = orders d"
  "users (snd (restoreStock d now i ord)) = users d"
  "organizations (snd (restoreStock d now i ord)) = organizations d"
  by (simp_all add: restoreStock_def logProductActivity_def Let_def
      split: option.splits sum.splits prod.splits)

lemma deductCancellationFee_frame:
  "credit_transactions (snd (deductCancellationFee d ord)) = credit_transactions d"
  "orders (snd (deductCancellationFee d ord)) = orders d"
  "users (snd (deductCancellationFee d ord)) = users d"
  "products (snd (deductCancellationFee d ord)) = products d"
  "product_logs (snd (deductCancellationFee d ord)) = product_logs d"
  by (simp_all add: deductCancellationFee_def Let_def split: sum.splits)

lemma cancelOrderEffects_frame:
  "credit_transactions (snd (cancelOrderEffects d now i ord)) = credit_transactions d"
  "orders (snd (cancelOrderEffects d now i ord)) = orders d"
  "users (snd (cancelOrderEffects d now i ord)) = users d"
  by (simp_all add: cancelOrderEffects_def case_prod_unfold restoreStock_frame
      deductCancellationFee_frame split: sum.splits)

lemma writeStatus_frame:
  "credit_transactions (snd (writeStatus d now inp k ord)) = credit_transactions d"
  "products (snd (writeStatus d now inp k ord)) = products d"
  "organizations (snd (writeStatus d now inp k ord)) = organizations d"
  "product_logs (snd (writeStatus d now inp k ord)) = product_logs d"
  "users (snd (writeStatus d now inp k ord)) = users d"
  "orders (snd (writeStatus d now inp k ord)) =
     updateOne (orders d) k (\<lambda>doc. doc\<lparr>status := us_status inp, o_updatedAt := now\<rparr>)"
  by (simp_all add: writeStatus_def logActivity_def Let_def split: sum.splits option.splits prod.splits)

text \<open>\<^verbatim>\<open>orders.updateStatus\<close> never writes to the credit-transaction ledger.\<close>

lemma updateStatus_ledger:
  "credit_transactions (snd (updateStatus d now inp)) = credit_transactions d"
  by (simp add: updateStatus_def case_prod_unfold writeStatus_frame cancelOrderEffects_frame
      split: sum.splits option.splits)

lemma updateStatus_orders:
  assumes "findOneById (orders d) (us_id inp) = Inr (Some (orderKey, ord))"
    and "fst (updateStatus d now inp) = Inr b"
  shows "orders (snd (updateStatus d now inp)) =
           (orders d)(orderKey \<mapsto> ord\<lparr>status := us_status inp, o_updatedAt := now\<rparr>)"
proof -
  have k: "orders d orderKey = Some ord"
    using assms(1) by (simp add: findOneById_Some)
  show ?thesis
  proof (cases "us_status inp = Cancelled \<and> status ord \<noteq> Cancelled")
    case False
    then have "updateStatus d now inp = writeStatus d now inp orderKey ord"
      using assms(1) by (auto simp: updateStatus_def)
    then show ?thesis by (simp add: writeStatus_frame updateOne_def k)
  next
    case True
    then have u: "updateStatus d now inp =
        (case cancelOrderEffects d now (us_id inp) ord of
           (Inl e, d1) \<Rightarrow> (Inl e, d1)
         | (Inr _, d1) \<Rightarrow> writeStatus d1 now inp orderKey ord)"
      using assms(1) by (simp add: updateStatus_def)
    obtain res d1 where c: "cancelOrderEffects d now (us_id inp) ord = (res, d1)"
      by (cases "cancelOrderEffects d now (us_id inp) ord")
    with u assms(2) obtain x where "res = Inr x" by (cases res) simp_all
    with u c have "updateStatus d now inp = writeStatus d1 now inp orderKey ord" by simp
    moreover have "orders d1 = orders d"
      using cancelOrderEffects_frame(2) [of d now "us_id inp" ord] c by simp
    ultimately show ?thesis by (simp add: writeStatus_frame updateOne_def k)
  qed
qed

lemma truthy_examples:
  "truthy exampleProductId" "truthy exampleUserId" "truthy ''client''"
  by (simp_all add: truthy_def exampleProductId_def exampleUserId_def)

lemma findCreator_examples:
  "findCreator (exampleStore c a ord) exampleUserId = Inr (Some (exampleUserId, \<lparr>u_name = ''Malee''\<rparr>))"
  "findCreator d ''client'' = Inl BSONError"
  by (simp_all add: findCreator_def truthy_examples findOneById_def ObjectId_examples exampleStore_def)

lemma cancel_pending_run:
  "fst (updateStatus (pendingStore c) 9 (cancelInput exampleOrderId)) = Inr True"
  "map_option stockQuantity
     (products (snd (updateStatus (pendingStore c) 9 (cancelInput exampleOrderId))) exampleProductId) = Some 7"
  "map_option credits
     (organizations (snd (updateStatus (pendingStore c) 9 (cancelInput exampleOrderId))) exampleOrgId) = Some (c - 20)"
  "map_option status
     (orders (snd (updateStatus (pendingStore c) 9 (cancelInput exampleOrderId))) exampleOrderId) = Some Cancelled"
  "credit_transactions (snd (updateStatus (pendingStore c) 9 (cancelInput exampleOrderId))) = []"
  by (simp_all add: updateStatus_def cancelInput_def example_lookups cancelOrderEffects_def
      restoreStock_def deductCancellationFee_def writeStatus_def Let_def truthy_examples
      findCreator_def findOneById_def ObjectId_examples updateOne_def logProductActivity_def
      logActivity_def exampleStore_def exampleOrder_def exampleProduct_def exampleOrganization_def
      userNameOrSystem_def)

lemma cancelInput_fields: "us_id (cancelInput i) = i" "us_status (cancelInput i) = Cancelled"
  by (simp_all add: cancelInput_def)

lemma clientOrderId_facts:
  "ObjectId clientOrderId = Inr clientOrderId" "clientOrderId \<noteq> exampleOrderId"
  by (simp_all add: ObjectId_def isHexDigit_def toLowerHex_def clientOrderId_def exampleOrderId_def)

lemma clientStore_eq:
  "submitClientOrder (pendingStore 100) 2 clientOrderId clientRequest =
     (Inr clientOrderId,
      \<lparr>products = [exampleProductId \<mapsto> (exampleProduct True)\<lparr>stockQuantity := 3, p_updatedAt := 2\<rparr>],
       organizations = [exampleOrgId \<mapsto> exampleOrganization 100],
       orders = [exampleOrderId \<mapsto> exampleOrder exampleUserId Pending,
                 clientOrderId \<mapsto> clientOrderDocument clientRequest 2],
       users = [exampleUserId \<mapsto> \<lparr>u_name = ''Malee''\<rparr>],
       credit_transactions = [],
       product_logs = [],
       user_logs = [\<lparr>a_userId = ''client'', a_userName = ''Somsri'', a_activity = SubmitClientOrder,
                     a_refId = clientOrderId, a_organizationId = exampleOrgId, a_createdAt = 2\<rparr>]\<rparr>)"
  by (simp add: submitClientOrder_def clientRequest_def truthy_examples findProductOfOrganization_def
      findOneById_def ObjectId_examples Let_def updateOne_def logActivity_def exampleStore_def
      exampleProduct_def)

lemma clientStore_value:
  "clientStore =
      \<lparr>products = [exampleProductId \<mapsto> (exampleProduct True)\<lparr>stockQuantity := 3, p_updatedAt := 2\<rparr>],
       organizations = [exampleOrgId \<mapsto> exampleOrganization 100],
       orders = [exampleOrderId \<mapsto> exampleOrder exampleUserId Pending,
                 clientOrderId \<mapsto> clientOrderDocument clientRequest 2],
       users = [exampleUserId \<mapsto> \<lparr>u_name = ''Malee''\<rparr>],
       credit_transactions = [],
       product_logs = [],
       user_logs = [\<lparr>a_userId = ''client'', a_userName = ''Somsri'', a_activity = SubmitClientOrder,
                     a_refId = clientOrderId, a_organizationId = exampleOrgId, a_createdAt = 2\<rparr>]\<rparr>"
  by (simp add: clientStore_def clientStore_eq)

lemma clientOrder_fields:
  "createdBy (clientOrderDocument clientRequest 2) = ''client''"
  "status (clientOrderDocument clientRequest 2) = Pending"
  "quantity (clientOrderDocument clientRequest 2) = 2"
  "o_productId (clientOrderDocument clientRequest 2) = Some exampleProductId"
  "o_organizationId (clientOrderDocument clientRequest 2) = exampleOrgId"
  by (simp_all add: clientOrderDocument_def clientRequest_def)

text \<open>
  The effects of a cancellation that runs to its end: the order is found and not yet
  cancelled, its product is in the store, its creator string is empty or parses as a key,
  and its organization is in the store. Then the stock goes up by the quantity, the fee of
  10 per piece is added with a minus sign to the credits whatever the balance, and the order
  is cancelled.
\<close>

lemma updateStatus_cancel_restores_and_charges:
  assumes o: "findOneById (orders d) (us_id inp) = Inr (Some (orderKey, ord))"
    and c: "us_status inp = Cancelled" "status ord \<noteq> Cancelled"
    and p: "o_productId ord = Some pid" "truthy pid"
           "findOneById (products d) pid = Inr (Some (productKey, prd))"
    and u: "findCreator d (createdBy ord) = Inr usr"
    and g: "findOneById (organizations d) (o_organizationId ord) = Inr (Some (orgKey, org))"
  shows "fst (updateStatus d now inp) = Inr True \<and>
         map_option stockQuantity (products (snd (updateStatus d now inp)) productKey) =
           Some (stockQuantity prd + quantity ord) \<and>
         map_option credits (organizations (snd (updateStatus d now inp)) orgKey) =
           Some (credits org + (- of_int (quantity ord * 10))) \<and>
         map_option status (orders (snd (updateStatus d now inp)) orderKey) = Some Cancelled"
proof -
  have pk: "products d productKey = Some prd" and gk: "organizations d orgKey = Some org"
    and gi: "ObjectId (o_organizationId ord) = Inr orgKey" and ok: "orders d orderKey = Some ord"
    using p(3) g o by (simp_all add: findOneById_Some)
  let ?d1 = "d\<lparr>products := (products d)(productKey \<mapsto>
               prd\<lparr>stockQuantity := stockQuantity prd + quantity ord, p_updatedAt := now\<rparr>)\<rparr>"
  have u1: "findCreator ?d1 (createdBy ord) = Inr usr"
  proof -
    have "findCreator ?d1 (createdBy ord) = findCreator d (createdBy ord)"
      by (simp add: findCreator_def)
    with u show ?thesis by simp
  qed
  obtain d2 where r: "restoreStock d now (us_id inp) ord = (Inr (), d2)"
    and d2: "products d2 = products ?d1" "organizations d2 = organizations d"
            "orders d2 = orders d" "users d2 = users d"
    using p pk u1 by (simp add: restoreStock_def Let_def updateOne_def logProductActivity_def)
  have f: "deductCancellationFee d2 ord =
      (Inr (), d2\<lparr>organizations := (organizations d)(orgKey \<mapsto>
                  org\<lparr>credits := credits org + (- of_int (quantity ord * 10))\<rparr>)\<rparr>)"
    using gi gk d2 by (simp add: deductCancellationFee_def Let_def updateOne_def)
  let ?d3 = "d2\<lparr>organizations := (organizations d)(orgKey \<mapsto>
                  org\<lparr>credits := credits org + (- of_int (quantity ord * 10))\<rparr>)\<rparr>"
  have e: "updateStatus d now inp = writeStatus ?d3 now inp orderKey ord"
    using o c r f by (simp add: updateStatus_def cancelOrderEffects_def)
  have u3: "findCreator (?d3\<lparr>orders := updateOne (orders ?d3) orderKey
              (\<lambda>doc. doc\<lparr>status := us_status inp, o_updatedAt := now\<rparr>)\<rparr>) (createdBy ord) = Inr usr"
  proof -
    have "findCreator (?d3\<lparr>orders := updateOne (orders ?d3) orderKey
              (\<lambda>doc. doc\<lparr>status := us_status inp, o_updatedAt := now\<rparr>)\<rparr>) (createdBy ord) =
          findCreator d (createdBy ord)"
      using d2 by (simp add: findCreator_def)
    with u show ?thesis by simp
  qed
  have "fst (writeStatus ?d3 now inp orderKey ord) = Inr True"
    using u3 by (cases usr) (auto simp add: writeStatus_def Let_def)
  moreover have "products (snd (writeStatus ?d3 now inp orderKey ord)) productKey =
      Some (prd\<lparr>stockQuantity := stockQuantity prd + quantity ord, p_updatedAt := now\<rparr>)"
    using d2 by (simp add: writeStatus_frame)
  moreover have "organizations (snd (writeStatus ?d3 now inp orderKey ord)) orgKey =
      Some (org\<lparr>credits := credits org + (- of_int (quantity ord * 10))\<rparr>)"
    by (simp add: writeStatus_frame)
  moreover have "orders (snd (writeStatus ?d3 now inp orderKey ord)) orderKey =
      Some (ord\<lparr>status := Cancelled, o_updatedAt := now\<rparr>)"
    using d2 ok c by (simp add: writeStatus_frame updateOne_def)
  ultimately show ?thesis
    using e by simp
qed

subsection \<open>Order cancellation: the claims\<close>

text \<open>
  C4, evaluated on the code. Cancelling the pending order of 2 pieces succeeds and takes
  the fee of 20 off the credits of 100, and the credit-transaction ledger is as empty after
  the call as before: \<^verbatim>\<open>orders.updateStatus\<close> changes the balance and appends no
  \<^verbatim>\<open>CreditTransaction\<close>.
\<close>

theorem updateStatus_cancellation_fee_not_recorded:
  "fst (updateStatus (pendingStore 100) 9 (cancelInput exampleOrderId)) = Inr True \<and>
   map_option credits (organizations (pendingStore 100) exampleOrgId) = Some 100 \<and>
   map_option credits
     (organizations (snd (updateStatus (pendingStore 100) 9 (cancelInput exampleOrderId))) exampleOrgId) =
     Some 80 \<and>
   credit_transactions (pendingStore 100) = [] \<and>
   credit_transactions (snd (updateStatus (pendingStore 100) 9 (cancelInput exampleOrderId))) = []"
  using cancel_pending_run [of 100]
  by (simp add: exampleStore_def exampleOrganization_def)

text \<open>
  C5, evaluated on the code. An order placed through \<^verbatim>\<open>orders.submitClientOrder\<close> with a
  product has \<^verbatim>\<open>createdBy = "client"\<close>. Cancelling it restores the stock (3 back to 5)
  and then throws in \<^verbatim>\<open>new ObjectId("client")\<close>, before the fee: the credits are still
  100, not 80, and the order is still \<^verbatim>\<open>pending\<close>.
\<close>

theorem updateStatus_cancel_client_order:
  "fst (submitClientOrder (pendingStore 100) 2 clientOrderId clientRequest) = Inr clientOrderId \<and>
   map_option createdBy (orders clientStore clientOrderId) = Some ''client'' \<and>
   map_option status (orders clientStore clientOrderId) = Some Pending \<and>
   map_option quantity (orders clientStore clientOrderId) = Some 2 \<and>
   map_option stockQuantity (products clientStore exampleProductId) = Some 3 \<and>
   map_option credits (organizations clientStore exampleOrgId) = Some 100 \<and>
   fst (updateStatus clientStore 9 (cancelInput clientOrderId)) = Inl BSONError \<and>
   map_option stockQuantity
     (products (snd (updateStatus clientStore 9 (cancelInput clientOrderId))) exampleProductId) = Some 5 \<and>
   map_option credits
     (organizations (snd (updateStatus clientStore 9 (cancelInput clientOrderId))) exampleOrgId) = Some 100 \<and>
   map_option status
     (orders (snd (updateStatus clientStore 9 (cancelInput clientOrderId))) clientOrderId) = Some Pending"
proof -
  have run: "updateStatus clientStore 9 (cancelInput clientOrderId) =
      (Inl BSONError,
       clientStore\<lparr>products :=
         [exampleProductId \<mapsto> (exampleProduct True)\<lparr>stockQuantity := 5, p_updatedAt := 9\<rparr>]\<rparr>)"
    by (simp add: clientStore_value updateStatus_def cancelInput_def findOneById_def
        clientOrderId_facts ObjectId_examples clientOrder_fields cancelOrderEffects_def
        restoreStock_def truthy_examples findCreator_examples updateOne_def exampleProduct_def)
  show ?thesis
    unfolding run
    by (simp add: clientStore_eq clientStore_value clientOrder_fields exampleProduct_def
        exampleOrganization_def)
qed

text \<open>
  C10. When the order of a call to \<^verbatim>\<open>orders.updateStatus\<close> with status \<^verbatim>\<open>cancelled\<close>
  is already cancelled, the call leaves products, organizations, ledger and product log as
  they are and rewrites only the status and \<^verbatim>\<open>updatedAt\<close> of the order. Hence a second
  cancellation after a successful one changes neither stock nor credits.
\<close>

theorem updateStatus_cancelled_again:
  assumes "findOneById (orders d) (us_id inp) = Inr (Some (orderKey, ord))"
    and "us_status inp = Cancelled"
  shows "(status ord = Cancelled \<longrightarrow>
            products (snd (updateStatus d now inp)) = products d \<and>
            organizations (snd (updateStatus d now inp)) = organizations d \<and>
            credit_transactions (snd (updateStatus d now inp)) = credit_transactions d \<and>
            product_logs (snd (updateStatus d now inp)) = product_logs d \<and>
            orders (snd (updateStatus d now inp)) =
              (orders d)(orderKey \<mapsto> ord\<lparr>status := Cancelled, o_updatedAt := now\<rparr>)) \<and>
         (fst (updateStatus d now inp) = Inr True \<longrightarrow>
            products (snd (updateStatus (snd (updateStatus d now inp)) later inp)) =
              products (snd (updateStatus d now inp)) \<and>
            organizations (snd (updateStatus (snd (updateStatus d now inp)) later inp)) =
              organizations (snd (updateStatus d now inp)))"
proof (intro conjI impI)
  assume c: "status ord = Cancelled"
  have k: "orders d orderKey = Some ord"
    using assms(1) by (simp add: findOneById_Some)
  have u: "updateStatus d now inp = writeStatus d now inp orderKey ord"
    using assms(1) c by (simp add: updateStatus_def)
  show "products (snd (updateStatus d now inp)) = products d"
    and "organizations (snd (updateStatus d now inp)) = organizations d"
    and "credit_transactions (snd (updateStatus d now inp)) = credit_transactions d"
    and "product_logs (snd (updateStatus d now inp)) = product_logs d"
    and "orders (snd (updateStatus d now inp)) =
              (orders d)(orderKey \<mapsto> ord\<lparr>status := Cancelled, o_updatedAt := now\<rparr>)"
    using u assms(2) k by (simp_all add: writeStatus_frame updateOne_def)
next
  assume s: "fst (updateStatus d now inp) = Inr True"
  let ?d1 = "snd (updateStatus d now inp)"
  let ?ord1 = "ord\<lparr>status := Cancelled, o_updatedAt := now\<rparr>"
  have o1: "orders ?d1 = (orders d)(orderKey \<mapsto> ?ord1)"
    using updateStatus_orders [OF assms(1) s] assms(2) by simp
  have "ObjectId (us_id inp) = Inr orderKey"
    using assms(1) by (simp add: findOneById_Some)
  then have f1: "findOneById (orders ?d1) (us_id inp) = Inr (Some (orderKey, ?ord1))"
    using o1 by (simp add: findOneById_def)
  have u: "updateStatus ?d1 later inp = writeStatus ?d1 later inp orderKey ?ord1"
    using f1 by (simp add: updateStatus_def)
  show "products (snd (updateStatus ?d1 later inp)) = products ?d1"
    and "organizations (snd (updateStatus ?d1 later inp)) = organizations ?d1"
    using u by (simp_all add: writeStatus_frame)
qed

theorem updateStatus_cancelled_again_witness:
  "findOneById (orders (cancelledStore 100)) (us_id (cancelInput exampleOrderId)) =
     Inr (Some (exampleOrderId, exampleOrder exampleUserId Cancelled)) \<and>
   us_status (cancelInput exampleOrderId) = Cancelled \<and>
   status (exampleOrder exampleUserId Cancelled) = Cancelled \<and>
   products (snd (updateStatus (cancelledStore 100) 9 (cancelInput exampleOrderId))) =
     products (cancelledStore 100) \<and>
   organizations (snd (updateStatus (cancelledStore 100) 9 (cancelInput exampleOrderId))) =
     organizations (cancelledStore 100) \<and>
   findOneById (orders (pendingStore 100)) (us_id (cancelInput exampleOrderId)) =
     Inr (Some (exampleOrderId, exampleOrder exampleUserId Pending)) \<and>
   fst (updateStatus (pendingStore 100) 9 (cancelInput exampleOrderId)) = Inr True \<and>
   map_option stockQuantity
     (products (snd (updateStatus (snd (updateStatus (pendingStore 100) 9 (cancelInput exampleOrderId)))
        10 (cancelInput exampleOrderId))) exampleProductId) = Some 7 \<and>
   map_option credits
     (organizations (snd (updateStatus (snd (updateStatus (pendingStore 100) 9 (cancelInput exampleOrderId)))
        10 (cancelInput exampleOrderId))) exampleOrgId) = Some 80"
proof -
  have a1: "findOneById (orders (cancelledStore 100)) (us_id (cancelInput exampleOrderId)) =
     Inr (Some (exampleOrderId, exampleOrder exampleUserId Cancelled))"
    by (simp add: cancelInput_fields example_lookups)
  have a2: "us_status (cancelInput exampleOrderId) = Cancelled"
    by (simp add: cancelInput_fields)
  have a3: "status (exampleOrder exampleUserId Cancelled) = Cancelled"
    by (simp add: exampleOrder_def)
  have b1: "findOneById (orders (pendingStore 100)) (us_id (cancelInput exampleOrderId)) =
     Inr (Some (exampleOrderId, exampleOrder exampleUserId Pending))"
    by (simp add: cancelInput_fields example_lookups)
  note b2 = cancel_pending_run(1) [of 100]
  from updateStatus_cancelled_again [OF a1 a2, of 9] a3
  have A: "products (snd (updateStatus (cancelledStore 100) 9 (cancelInput exampleOrderId))) =
             products (cancelledStore 100) \<and>
           organizations (snd (updateStatus (cancelledStore 100) 9 (cancelInput exampleOrderId))) =
             organizations (cancelledStore 100)"
    by simp
  from updateStatus_cancelled_again [OF b1 a2, of 9 10] b2
  have B: "products (snd (updateStatus (snd (updateStatus (pendingStore 100) 9 (cancelInput exampleOrderId)))
              10 (cancelInput exampleOrderId))) =
             products (snd (updateStatus (pendingStore 100) 9 (cancelInput exampleOrderId))) \<and>
           organizations (snd (updateStatus (snd (updateStatus (pendingStore 100) 9 (cancelInput exampleOrderId)))
              10 (cancelInput exampleOrderId))) =
             organizations (snd (updateStatus (pendingStore 100) 9 (cancelInput exampleOrderId)))"
    by simp
  show ?thesis
    using a1 a2 a3 b1 b2 A B cancel_pending_run(2,3) [of 100] by simp
qed

subsection \<open>Stock reservation at order creation\<close>

lemma findProductOfOrganization_Some:
  "findProductOfOrganization d pid org = Inr (Some (k, prd)) \<longleftrightarrow>
     ObjectId pid = Inr k \<and> products d k = Some prd \<and> p_organizationId prd = org"
  by (auto simp: findProductOfOrganization_def findOneById_def split: sum.splits option.splits)

lemma reduceStockForOrder_insufficient:
  assumes "findProductOfOrganization d pid (n_organizationId inp) = Inr (Some (productKey, prd))"
    and "n_productId inp = Some pid" and "truthy pid" and "isActive prd"
    and "stockQuantity prd < n_quantity inp"
  shows "reduceStockForOrder d now inp =
           (Inl (InsufficientStock (stockQuantity prd) (n_quantity inp)), d)"
  using assms by (simp add: reduceStockForOrder_def)

lemma reduceStockForOrder_products:
  assumes "findProductOfOrganization d pid (n_organizationId inp) = Inr (Some (productKey, prd))"
    and "n_productId inp = Some pid" and "truthy pid" and "isActive prd"
    and "\<not> stockQuantity prd < n_quantity inp"
  shows "products (snd (reduceStockForOrder d now inp)) =
           (products d)(productKey \<mapsto>
              prd\<lparr>stockQuantity := stockQuantity prd - n_quantity inp, p_updatedAt := now\<rparr>)"
proof -
  have "products d productKey = Some prd"
    using assms(1) by (simp add: findProductOfOrganization_Some)
  then show ?thesis
    using assms
    by (simp add: reduceStockForOrder_def Let_def updateOne_def logProductActivity_def
        split: sum.splits)
qed

lemma create_products:
  "products (snd (create d now newId inp)) = products (snd (reduceStockForOrder d now inp))"
  by (simp add: create_def case_prod_unfold Let_def logActivity_def
      split: sum.splits option.splits)

lemma example_product_lookup:
  "findProductOfOrganization (exampleStore c a ord) exampleProductId exampleOrgId =
     Inr (Some (exampleProductId, exampleProduct a))"
  by (simp add: findProductOfOrganization_def example_lookups exampleProduct_def)

lemma exampleProduct_fields:
  "stockQuantity (exampleProduct a) = 5" "isActive (exampleProduct a) = a"
  by (simp_all add: exampleProduct_def)

lemma adminRequest_fields:
  "n_productId adminRequest = Some exampleProductId"
  "n_organizationId adminRequest = exampleOrgId"
  "n_quantity adminRequest = 2"
  "n_productId (adminRequest\<lparr>n_quantity := q\<rparr>) = Some exampleProductId"
  "n_organizationId (adminRequest\<lparr>n_quantity := q\<rparr>) = exampleOrgId"
  by (simp_all add: adminRequest_def)

lemma clientRequest_fields:
  "s_productId clientRequest = Some exampleProductId"
  "s_organizationId clientRequest = exampleOrgId"
  "s_quantity clientRequest = 2"
  "s_productId (clientRequest\<lparr>s_quantity := q\<rparr>) = Some exampleProductId"
  "s_organizationId (clientRequest\<lparr>s_quantity := q\<rparr>) = exampleOrgId"
  by (simp_all add: clientRequest_def)

text \<open>
  C6, as the code has it. For an order creation, by \<^verbatim>\<open>orders.create\<close> or by
  \<^verbatim>\<open>orders.submitClientOrder\<close>, that names a product which is in the store, belongs to the
  organization of the request and is active: when the requested quantity exceeds the stock,
  the creation fails with the insufficient-stock error and the store, hence the stock, is
  unchanged; otherwise the stock of the product decreases by exactly the requested quantity.
\<close>

theorem create_reserves_stock_of_active_product:
  assumes "findProductOfOrganization d pid org = Inr (Some (productKey, prd))"
    and "truthy pid" and "isActive prd"
    and "n_productId inp = Some pid" and "n_organizationId inp = org"
    and "s_productId cinp = Some pid" and "s_organizationId cinp = org"
  shows "(stockQuantity prd < n_quantity inp \<longrightarrow>
            create d now newId inp =
              (Inl (InsufficientStock (stockQuantity prd) (n_quantity inp)), d)) \<and>
         (\<not> stockQuantity prd < n_quantity inp \<longrightarrow>
            map_option stockQuantity (products (snd (create d now newId inp)) productKey) =
              Some (stockQuantity prd - n_quantity inp)) \<and>
         (stockQuantity prd < s_quantity cinp \<longrightarrow>
            submitClientOrder d now newId cinp =
              (Inl (InsufficientStock (stockQuantity prd) (s_quantity cinp)), d)) \<and>
         (\<not> stockQuantity prd < s_quantity cinp \<longrightarrow>
            map_option stockQuantity (products (snd (submitClientOrder d now newId cinp)) productKey) =
              Some (stockQuantity prd - s_quantity cinp))"
proof (intro conjI impI)
  have f: "findProductOfOrganization d pid (n_organizationId inp) = Inr (Some (productKey, prd))"
    using assms(1,5) by simp
  have k: "products d productKey = Some prd"
    using assms(1) by (simp add: findProductOfOrganization_Some)
  {
    assume "stockQuantity prd < n_quantity inp"
    then show "create d now newId inp =
        (Inl (InsufficientStock (stockQuantity prd) (n_quantity inp)), d)"
      using reduceStockForOrder_insufficient [OF f assms(4,2,3)] by (simp add: create_def)
  }
  {
    assume "\<not> stockQuantity prd < n_quantity inp"
    then show "map_option stockQuantity (products (snd (create d now newId inp)) productKey) =
        Some (stockQuantity prd - n_quantity inp)"
      using reduceStockForOrder_products [OF f assms(4,2,3)] by (simp add: create_products)
  }
  {
    assume "stockQuantity prd < s_quantity cinp"
    then show "submitClientOrder d now newId cinp =
        (Inl (InsufficientStock (stockQuantity prd) (s_quantity cinp)), d)"
      using assms by (simp add: submitClientOrder_def)
  }
  {
    assume "\<not> stockQuantity prd < s_quantity cinp"
    then show "map_option stockQuantity (products (snd (submitClientOrder d now newId cinp)) productKey) =
        Some (stockQuantity prd - s_quantity cinp)"
      using assms k by (simp add: submitClientOrder_def Let_def updateOne_def logActivity_def)
  }
qed

theorem create_reserves_stock_of_active_product_witness:
  "findProductOfOrganization (pendingStore 100) exampleProductId exampleOrgId =
     Inr (Some (exampleProductId, exampleProduct True)) \<and>
   truthy exampleProductId \<and> isActive (exampleProduct True) \<and>
   n_productId adminRequest = Some exampleProductId \<and> n_organizationId adminRequest = exampleOrgId \<and>
   s_productId clientRequest = Some exampleProductId \<and> s_organizationId clientRequest = exampleOrgId \<and>
   stockQuantity (exampleProduct True) = 5 \<and>
   create (pendingStore 100) 2 clientOrderId (adminRequest\<lparr>n_quantity := 6\<rparr>) =
     (Inl (InsufficientStock 5 6), pendingStore 100) \<and>
   map_option stockQuantity
     (products (snd (create (pendingStore 100) 2 clientOrderId adminRequest)) exampleProductId) = Some 3 \<and>
   submitClientOrder (pendingStore 100) 2 clientOrderId (clientRequest\<lparr>s_quantity := 6\<rparr>) =
     (Inl (InsufficientStock 5 6), pendingStore 100) \<and>
   map_option stockQuantity
     (products (snd (submitClientOrder (pendingStore 100) 2 clientOrderId clientRequest)) exampleProductId) =
     Some 3"
proof -
  note f = example_product_lookup [of 100 True "exampleOrder exampleUserId Pending"]
  note t = truthy_examples(1)
  have a: "isActive (exampleProduct True)" by (simp add: exampleProduct_fields)
  note enough = create_reserves_stock_of_active_product
      [OF f t a adminRequest_fields(1,2) clientRequest_fields(1,2), of 2 clientOrderId]
  note short = create_reserves_stock_of_active_product
      [OF f t a adminRequest_fields(4,5) clientRequest_fields(4,5), of 6 2 clientOrderId 6]
  show ?thesis
    using f t a enough short
    by (simp add: exampleProduct_fields adminRequest_fields clientRequest_fields)
qed

text \<open>
  C6, as the claim states it, fails for a product that is not active: with 5 pieces in stock
  and 2 requested the stock is not reduced to 3, the creation fails with the not-active
  error; and with 6 requested the error is the not-active error, not the insufficient-stock
  error.
\<close>

theorem create_inactive_product_counterexample:
  "n_productId adminRequest = Some exampleProductId \<and>
   map_option stockQuantity (products inactiveStore exampleProductId) = Some 5 \<and>
   n_quantity adminRequest = 2 \<and>
   create inactiveStore 2 clientOrderId adminRequest = (Inl ProductNotActive, inactiveStore) \<and>
   map_option stockQuantity
     (products (snd (create inactiveStore 2 clientOrderId adminRequest)) exampleProductId) \<noteq>
     Some (5 - 2) \<and>
   create inactiveStore 2 clientOrderId (adminRequest\<lparr>n_quantity := 6\<rparr>) =
     (Inl ProductNotActive, inactiveStore) \<and>
   ProductNotActive \<noteq> InsufficientStock 5 6"
proof -
  have r: "reduceStockForOrder inactiveStore 2 (adminRequest\<lparr>n_quantity := q\<rparr>) =
      (Inl ProductNotActive, inactiveStore)" for q
    by (simp add: reduceStockForOrder_def adminRequest_fields truthy_examples
        example_product_lookup exampleProduct_fields)
  have c: "create inactiveStore 2 clientOrderId (adminRequest\<lparr>n_quantity := q\<rparr>) =
      (Inl ProductNotActive, inactiveStore)" for q
    by (simp add: create_def r)
  have e: "adminRequest\<lparr>n_quantity := 2\<rparr> = adminRequest"
    by (simp add: adminRequest_def)
  have s: "products inactiveStore exampleProductId = Some (exampleProduct False)"
    by (simp add: exampleStore_def)
  show ?thesis
    using c [of 2] c [of 6] by (simp add: e adminRequest_fields s exampleProduct_fields)
qed

subsection \<open>The ledger equation\<close>

text \<open>
  The record written by \<^verbatim>\<open>organizations.addCredits\<close> satisfies
  \<^verbatim>\<open>balanceAfter = balanceBefore + amount\<close>: the right-hand side is the expression the code
  computes \<^verbatim>\<open>balanceAfter\<close> with.
\<close>

lemma addCredits_ledger_invariant:
  assumes "fst (addCredits d now inp) = Inr r"
  shows "\<exists>t. credit_transactions (snd (addCredits d now inp)) = credit_transactions d @ [t] \<and>
             t_type t = Add \<and> balanceAfter t = balanceBefore t + amount t"
  using assms
  by (auto simp: addCredits_def Let_def split: sum.splits option.splits prod.splits)

text \<open>
  C9, evaluated on the code. The record written by the shipping-cost deduction of the
  scenario has \<^verbatim>\<open>balanceBefore = 100\<close>, \<^verbatim>\<open>amount = 77\<close> and \<^verbatim>\<open>balanceAfter = 23\<close>: the
  amount of a deduction is stored with a positive sign, so \<^verbatim>\<open>balanceAfter\<close> is not
  \<^verbatim>\<open>balanceBefore + amount\<close>.
\<close>

theorem updateShippingCost_ledger_sign:
  "fst (updateShippingCost (pendingStore 100) 7 scenarioInput) =
     Inr \<lparr>success = True, r_totalShippingCost = 77, newBalance = 23\<rparr> \<and>
   t_type (last (credit_transactions (snd (updateShippingCost (pendingStore 100) 7 scenarioInput)))) =
     Deduct \<and>
   balanceBefore (last (credit_transactions (snd (updateShippingCost (pendingStore 100) 7 scenarioInput)))) = 100 \<and>
   amount (last (credit_transactions (snd (updateShippingCost (pendingStore 100) 7 scenarioInput)))) = 77 \<and>
   balanceAfter (last (credit_transactions (snd (updateShippingCost (pendingStore 100) 7 scenarioInput)))) = 23 \<and>
   balanceAfter (last (credit_transactions (snd (updateShippingCost (pendingStore 100) 7 scenarioInput)))) \<noteq>
     balanceBefore (last (credit_transactions (snd (updateShippingCost (pendingStore 100) 7 scenarioInput)))) +
     amount (last (credit_transactions (snd (updateShippingCost (pendingStore 100) 7 scenarioInput))))"
proof -
  have c: "\<not> credits (exampleOrganization 100) < inputTotal scenarioInput"
    by (simp add: inputTotal_scenario exampleOrganization_def)
  show ?thesis
    using updateShippingCost_accepted [OF scenario_order_found scenario_organization_found c,
        of True "exampleOrder exampleUserId Pending" 7]
    by (simp add: inputTotal_scenario exampleOrganization_def exampleStore_def)
qed

end
